theory Spec2Isabelle
  imports Complex_Main
begin

section \<open>Python values\<close>

text \<open>
  The exceptions the modelled code can meet. \<open>StoreError\<close> is \<^verbatim>\<open>sqlite3.Error\<close> (every
  error of the sqlite3 module derives from it), \<open>ModelError\<close> is whatever the embedding
  model, the tokenizer or the language model raise; the others are Python's own.
\<close>

datatype error = StoreError | ModelError | AttributeError | TypeError | ValueError | IndexError

subsection \<open>Strings\<close>

text \<open>
  \<^verbatim>\<open>str.split(',')\<close> and \<^verbatim>\<open>str.strip()\<close>. A \<open>string\<close> is a list of bytes, so
  \<open>isspace\<close> knows the ASCII white space only.
\<close>

definition isspace :: "char \<Rightarrow> bool" where
  "isspace c = (c \<in> set [CHR '' '', CHR 0x09, CHR 0x0A, CHR 0x0B, CHR 0x0C, CHR 0x0D,
                           CHR 0x1C, CHR 0x1D, CHR 0x1E, CHR 0x1F])"

definition strip :: "string \<Rightarrow> string" where
  "strip s = rev (dropWhile isspace (rev (dropWhile isspace s)))"

fun split_on :: "char \<Rightarrow> string \<Rightarrow> string list" where
  "split_on sep [] = [[]]"
| "split_on sep (c # cs) =
     (if c = sep then [] # split_on sep cs
      else (case split_on sep cs of
              [] \<Rightarrow> [[c]]
            | w # ws \<Rightarrow> (c # w) # ws))"

text \<open>\<^verbatim>\<open>f"{x}"\<close> of a nullable TEXT column: \<^verbatim>\<open>None\<close> prints as \<^verbatim>\<open>None\<close>.\<close>

definition py_str :: "string option \<Rightarrow> string" where
  "py_str v = (case v of None \<Rightarrow> ''None'' | Some s \<Rightarrow> s)"

text \<open>
  A Python \<^verbatim>\<open>set\<close> of strings is a list without duplicates, in insertion order; the
  order in which Python iterates a set is not specified, and no theorem below depends on
  the order chosen here.
\<close>

definition set_update :: "string list \<Rightarrow> string list \<Rightarrow> string list" where
  "set_update acc new = acc @ filter (\<lambda>x. x \<notin> set acc) (remdups new)"

text \<open>\<^verbatim>\<open>len(a & b)\<close> for two sets given by their members.\<close>

definition len_common :: "string list \<Rightarrow> string list \<Rightarrow> nat" where
  "len_common a b = card (set a \<inter> set b)"

subsection \<open>JSON documents\<close>

text \<open>
  What \<^verbatim>\<open>json.loads\<close> returns. A \<open>JObj\<close> lists the items of the resulting \<^verbatim>\<open>dict\<close>,
  so its keys are distinct and \<^verbatim>\<open>d.get(k)\<close> is \<open>map_of\<close>.
\<close>

datatype json = JNull | JBool bool | JNum real | JStr string | JArr "json list"
  | JObj "(string \<times> json) list"

text \<open>Truth value testing (\<^verbatim>\<open>if v:\<close>).\<close>

fun truthy :: "json \<Rightarrow> bool" where
  "truthy JNull = False"
| "truthy (JBool b) = b"
| "truthy (JNum n) = (n \<noteq> 0)"
| "truthy (JStr s) = (s \<noteq> [])"
| "truthy (JArr xs) = (xs \<noteq> [])"
| "truthy (JObj kvs) = (kvs \<noteq> [])"

fun hashable :: "json \<Rightarrow> bool" where
  "hashable (JArr xs) = False"
| "hashable (JObj kvs) = False"
| "hashable v = True"

fun str_members :: "json list \<Rightarrow> string list" where
  "str_members [] = []"
| "str_members (JStr s # vs) = s # str_members vs"
| "str_members (v # vs) = str_members vs"

text \<open>
  \<^verbatim>\<open>set(v)\<close>, kept as the strings among its members: the set is only ever intersected
  with a set of strings, and a member that is not a string equals none of them. A list
  with an unhashable member, and a value that cannot be iterated, raise \<^verbatim>\<open>TypeError\<close>;
  a string is iterated by character and a dict by key.
\<close>

fun py_set :: "json \<Rightarrow> error + string list" where
  "py_set (JArr xs) = (if list_all hashable xs then Inr (str_members xs) else Inl TypeError)"
| "py_set (JStr s) = Inr (map (\<lambda>c. [c]) s)"
| "py_set (JObj kvs) = Inr (map fst kvs)"
| "py_set v = Inl TypeError"

subsection \<open>Floating point numbers\<close>

text \<open>
  A float is the real number it stands for, and every arithmetic operation rounds
  its exact result into the float format. The format of the score arrays is chosen by
  the scoring libraries, so the rounding is a parameter of the model: \<open>exact\<close> is
  arithmetic without rounding error, \<open>binary64\<close> is Python's \<^verbatim>\<open>float\<close> (IEEE 754 double
  precision, round to nearest, ties to even). Infinities, NaN and the limits of the
  exponent range are not modelled.
\<close>

type_synonym rounding = "real \<Rightarrow> real"

definition exact :: rounding where
  "exact x = x"

fun bit_length :: "nat \<Rightarrow> nat" where
  "bit_length n = (if n = 0 then 0 else Suc (bit_length (n div 2)))"

declare bit_length.simps [simp del]

text \<open>The exponent of the binade of a positive number: \<open>2 ^ ilog2 x \<le> x < 2 ^ (ilog2 x + 1)\<close>.\<close>

definition ilog2 :: "real \<Rightarrow> int" where
  "ilog2 x = (if 1 \<le> x then int (bit_length (nat \<lfloor>x\<rfloor>)) - 1
              else - int (bit_length (nat (\<lceil>1 / x\<rceil> - 1))))"

definition round_half_even :: "real \<Rightarrow> int" where
  "round_half_even x =
     (let f = \<lfloor>x\<rfloor>; d = x - of_int f
      in if d < 1 / 2 then f else if 1 / 2 < d then f + 1 else if even f then f else f + 1)"

definition binary64 :: rounding where
  "binary64 x =
     (if x = 0 then 0
      else let e = ilog2 \<bar>x\<bar>
           in sgn x * of_int (round_half_even (\<bar>x\<bar> * 2 powi (52 - e))) * 2 powi (e - 52))"

definition fadd :: "rounding \<Rightarrow> real \<Rightarrow> real \<Rightarrow> real" where
  "fadd rnd a b = rnd (a + b)"

definition fsub :: "rounding \<Rightarrow> real \<Rightarrow> real \<Rightarrow> real" where
  "fsub rnd a b = rnd (a - b)"

definition fmul :: "rounding \<Rightarrow> real \<Rightarrow> real \<Rightarrow> real" where
  "fmul rnd a b = rnd (a * b)"

text \<open>
  numpy on one-dimensional arrays: a scalar times an array, and the sum of two arrays.
  Arrays of equal length are added element by element, an array of length one is
  broadcast over the other, and any other pair of lengths raises \<^verbatim>\<open>ValueError\<close>.
\<close>

definition np_scale :: "rounding \<Rightarrow> real \<Rightarrow> real list \<Rightarrow> real list" where
  "np_scale rnd a xs = map (fmul rnd a) xs"

definition np_add :: "rounding \<Rightarrow> real list \<Rightarrow> real list \<Rightarrow> error + real list" where
  "np_add rnd xs ys =
     (if length xs = length ys then Inr (map2 (fadd rnd) xs ys)
      else if length xs = 1 then Inr (map (fadd rnd (hd xs)) ys)
      else if length ys = 1 then Inr (map (\<lambda>x. fadd rnd x (hd ys)) xs)
      else Inl ValueError)"

text \<open>
  \<^verbatim>\<open>np.argsort(a)\<close>: the indices that sort \<open>a\<close> in ascending order. numpy's default
  sort finishes every run of at most 16 elements by insertion, which keeps equal keys in
  index order, and documents no order for equal keys in general; the model is the stable
  insertion sort.
\<close>

definition argsort :: "real list \<Rightarrow> nat list" where
  "argsort a = sort_key (\<lambda>i. a ! i) [0..<length a]"

text \<open>\<^verbatim>\<open>xs[:n]\<close>: a negative \<open>n\<close> counts from the end.\<close>

definition slice_to :: "int \<Rightarrow> 'a list \<Rightarrow> 'a list" where
  "slice_to n xs = (if 0 \<le> n then take (nat n) xs else take (length xs - nat (- n)) xs)"

text \<open>A list comprehension whose body can raise.\<close>

fun map_err :: "('a \<Rightarrow> error + 'b) \<Rightarrow> 'a list \<Rightarrow> error + 'b list" where
  "map_err f [] = Inr []"
| "map_err f (x # xs) =
     (case f x of
        Inl e \<Rightarrow> Inl e
      | Inr y \<Rightarrow> (case map_err f xs of Inl e \<Rightarrow> Inl e | Inr ys \<Rightarrow> Inr (y # ys)))"

section \<open>The store (database.py)\<close>

text \<open>
  The tables are modelled as \<^verbatim>\<open>_initialize_db\<close> declares them, a row as a record and
  a table as the list of its rows. (SQLite has no \<^verbatim>\<open>#\<close> comments, so it rejects the
  \<^verbatim>\<open>CREATE TABLE users\<close> statement as it is written; the model is of the store the
  declarations describe.) The columns filled by \<^verbatim>\<open>datetime('now')\<close> are left out, and
  so is the row id of an interaction: no modelled operation reads them. The column
  \<^verbatim>\<open>events.popularity\<close> has the default 0 and no INSERT of the code writes it, so it
  is an integer, never NULL. The
  \<^verbatim>\<open>REFERENCES\<close> clause of \<^verbatim>\<open>interactions.user_id\<close> is not enforced by SQLite unless
  foreign keys are switched on, which the code never does.
\<close>

record event =
  ev_id :: int
  ev_title :: string
  ev_date :: "string option"
  ev_location :: "string option"
  ev_tags :: "string option"
  ev_description :: "string option"
  ev_url :: "string option"
  ev_source :: "string option"
  ev_popularity :: int

text \<open>The table \<^verbatim>\<open>courses\<close> is declared without a \<^verbatim>\<open>popularity\<close> column.\<close>

record course =
  co_id :: int
  co_title :: string
  co_provider :: "string option"
  co_tags :: "string option"
  co_description :: "string option"
  co_start_date :: "string option"
  co_url :: "string option"
  co_duration :: "string option"
  co_price :: "real option"
  co_rating :: "real option"

text \<open>
  The TEXT column \<^verbatim>\<open>users.preferences\<close> holds a JSON document: \<open>Encoded j\<close> is a text
  that \<^verbatim>\<open>json.loads\<close> reads as \<open>j\<close> (what \<^verbatim>\<open>json.dumps\<close> of \<open>j\<close> writes), and
  \<open>Undecodable\<close> is a text that \<^verbatim>\<open>json.loads\<close> rejects, the empty text among them.
\<close>

datatype json_text = Undecodable | Encoded json

record user =
  usr_user_id :: int
  usr_username :: "string option"
  usr_first_name :: "string option"
  usr_last_name :: "string option"
  usr_preferences :: "json_text option"

record interaction =
  int_user_id :: int
  int_item_id :: int
  int_item_type :: string
  int_interaction_type :: string

text \<open>
  \<open>connectable\<close> says whether \<^verbatim>\<open>sqlite3.connect(self.db_path)\<close> succeeds; when it does
  not, \<^verbatim>\<open>_get_connection\<close> logs the \<^verbatim>\<open>sqlite3.Error\<close> and raises it again.
\<close>

record database =
  connectable :: bool
  events :: "event list"
  courses :: "course list"
  users :: "user list"
  interactions :: "interaction list"

text \<open>
  \<^verbatim>\<open>log_interaction\<close> (lines 271-321). The INSERT is checked against the two CHECK
  constraints of \<^verbatim>\<open>interactions\<close>; the UPDATE of the popularity names the table
  \<^verbatim>\<open>events\<close> for an event and \<^verbatim>\<open>courses\<close> for anything else, and \<^verbatim>\<open>courses\<close> has no
  such column. Either failure is a \<^verbatim>\<open>sqlite3.Error\<close>: it is caught, the connection is
  closed before \<^verbatim>\<open>commit\<close>, so nothing is written, and the call returns \<^verbatim>\<open>False\<close>.
\<close>

definition log_interaction ::
    "database \<Rightarrow> int \<Rightarrow> int \<Rightarrow> string \<Rightarrow> string \<Rightarrow> bool \<times> database" where
  "log_interaction db user_id item_id item_type interaction_type =
     (if connectable db
         \<and> (item_type = ''event'' \<or> item_type = ''course'')
         \<and> (interaction_type = ''view'' \<or> interaction_type = ''like''
              \<or> interaction_type = ''dislike'' \<or> interaction_type = ''bookmark'')
      then
        let db1 = db\<lparr>interactions := interactions db @
                     [\<lparr>int_user_id = user_id, int_item_id = item_id,
                       int_item_type = item_type, int_interaction_type = interaction_type\<rparr>]\<rparr>
        in if interaction_type = ''like'' \<or> interaction_type = ''bookmark''
           then if item_type = ''event''
                then (True, db1\<lparr>events :=
                        map (\<lambda>e. if ev_id e = item_id
                                  then e\<lparr>ev_popularity := ev_popularity e + 1\<rparr> else e)
                            (events db1)\<rparr>)
                else (False, db)
           else (True, db1)
      else (False, db))"

text \<open>
  \<^verbatim>\<open>get_user_preferences\<close> (lines 323-338): the decoded document of the user's row, and
  an empty dict when there is no row, the column is NULL or empty, or the text does not
  decode. An error of the connection is not caught here.
\<close>

definition get_user_preferences :: "database \<Rightarrow> int \<Rightarrow> error + json" where
  "get_user_preferences db user_id =
     (if connectable db
      then (case find (\<lambda>u. usr_user_id u = user_id) (users db) of
              None \<Rightarrow> Inr (JObj [])
            | Some u \<Rightarrow>
                (case usr_preferences u of
                   None \<Rightarrow> Inr (JObj [])
                 | Some Undecodable \<Rightarrow> Inr (JObj [])
                 | Some (Encoded j) \<Rightarrow> Inr j))
      else Inl StoreError)"

text \<open>
  \<^verbatim>\<open>update_user_preferences\<close> (lines 340-363): \<^verbatim>\<open>INSERT OR IGNORE\<close> of the user's
  row, then the UPDATE that replaces the whole column.
\<close>

definition update_user_preferences :: "database \<Rightarrow> int \<Rightarrow> json \<Rightarrow> bool \<times> database" where
  "update_user_preferences db user_id preferences =
     (if connectable db
      then
        let rows = (case find (\<lambda>u. usr_user_id u = user_id) (users db) of
                      Some u \<Rightarrow> users db
                    | None \<Rightarrow> users db @
                        [\<lparr>usr_user_id = user_id, usr_username = None, usr_first_name = None,
                          usr_last_name = None, usr_preferences = None\<rparr>])
        in (True, db\<lparr>users :=
              map (\<lambda>u. if usr_user_id u = user_id
                        then u\<lparr>usr_preferences := Some (Encoded preferences)\<rparr> else u)
                  rows\<rparr>)
      else (False, db))"

subsection \<open>The catalog and the interaction history\<close>

text \<open>
  The item dicts the recommender reads: the keys \<^verbatim>\<open>id\<close>, \<^verbatim>\<open>item_type\<close>, \<^verbatim>\<open>title\<close>,
  \<^verbatim>\<open>tags\<close>, \<^verbatim>\<open>description\<close> and \<^verbatim>\<open>url\<close>.
\<close>

record item =
  item_id :: int
  item_type :: string
  title :: string
  tags :: "string option"
  description :: "string option"
  url :: "string option"

definition event_item :: "event \<Rightarrow> item" where
  "event_item e = \<lparr>item_id = ev_id e, item_type = ''event'', title = ev_title e,
                    tags = ev_tags e, description = ev_description e, url = ev_url e\<rparr>"

definition course_item :: "course \<Rightarrow> item" where
  "course_item c = \<lparr>item_id = co_id c, item_type = ''course'', title = co_title c,
                     tags = co_tags c, description = co_description c, url = co_url c\<rparr>"

text \<open>
  Modelled from the spec: \<^verbatim>\<open>DatabaseManager.get_all_items\<close>, which the recommender
  calls and database.py does not define. The spec gives
  \<^verbatim>\<open>get_all_items() -> sequence<CatalogItem>\<close>, where the catalog is "the full set of
  recommendable events and courses"; the events come first, as in the UNION ALL of
  \<^verbatim>\<open>get_recommendations\<close>. A store that cannot be reached is the spec's StoreUnavailable.
\<close>

definition get_all_items :: "database \<Rightarrow> error + item list" where
  "get_all_items db =
     (if connectable db then Inr (map event_item (events db) @ map course_item (courses db))
      else Inl StoreError)"

text \<open>
  Modelled from the spec: \<^verbatim>\<open>DatabaseManager.get_item\<close>, missing from database.py as
  well. The spec gives \<^verbatim>\<open>get_item(id, type) -> CatalogItem | not-found\<close>, a catalog item
  being identified by its id and its type, event or course.
\<close>

definition get_item :: "database \<Rightarrow> int \<Rightarrow> string \<Rightarrow> error + item option" where
  "get_item db ident ty =
     (if connectable db
      then Inr (if ty = ''event''
                then map_option event_item (find (\<lambda>e. ev_id e = ident) (events db))
                else if ty = ''course''
                then map_option course_item (find (\<lambda>c. co_id c = ident) (courses db))
                else None)
      else Inl StoreError)"

text \<open>
  Modelled from the spec: \<^verbatim>\<open>DatabaseManager.get_user_interactions\<close>, missing from
  database.py as well. The spec gives
  \<^verbatim>\<open>get_user_interactions(user_id) -> sequence<Interaction>\<close>, "all interactions for the
  user".
\<close>

definition get_user_interactions :: "database \<Rightarrow> int \<Rightarrow> error + interaction list" where
  "get_user_interactions db user_id =
     (if connectable db then Inr (filter (\<lambda>i. int_user_id i = user_id) (interactions db))
      else Inl StoreError)"

section \<open>The recommender (recommender.py)\<close>

subsection \<open>Relevance scores\<close>

text \<open>
  The pretrained models are libraries, so what they compute is a parameter:
  \<open>embedding_model\<close> is \<^verbatim>\<open>self.embedding_model.encode\<close>, \<open>cosine_similarity\<close> is
  scikit-learn's function on two lists of vectors, and \<open>lm_model\<close> is the body of the
  \<^verbatim>\<open>try\<close> of \<^verbatim>\<open>keyword_relevance\<close> (lines 59-67: the tokenizer on the pairs of the
  query and a text, the language model, the sigmoid and column 0 of the scores). Each
  of them can raise.
\<close>

record models =
  embedding_model :: "string \<Rightarrow> error + real list"
  cosine_similarity :: "real list list \<Rightarrow> real list list \<Rightarrow> error + real list list"
  lm_model :: "string list \<Rightarrow> string list \<Rightarrow> error + real list"

definition get_text_embedding :: "models \<Rightarrow> string \<Rightarrow> error + real list" where
  "get_text_embedding m text_in =
     (if text_in = [] then Inr (replicate 384 0) else embedding_model m text_in)"

definition semantic_similarity :: "models \<Rightarrow> string \<Rightarrow> string list \<Rightarrow> error + real list" where
  "semantic_similarity m query texts =
     (case get_text_embedding m query of
        Inl e \<Rightarrow> Inl e
      | Inr query_embedding \<Rightarrow>
          (case map_err (get_text_embedding m) texts of
             Inl e \<Rightarrow> Inl e
           | Inr text_embeddings \<Rightarrow>
               (case cosine_similarity m [query_embedding] text_embeddings of
                  Inl e \<Rightarrow> Inl e
                | Inr [] \<Rightarrow> Inl IndexError
                | Inr (similarities # rows) \<Rightarrow> Inr similarities)))"

text \<open>\<^verbatim>\<open>keyword_relevance\<close> (lines 56-70): any exception of the inference is caught.\<close>

definition keyword_relevance :: "models \<Rightarrow> string \<Rightarrow> string list \<Rightarrow> real list" where
  "keyword_relevance m query texts =
     (case lm_model m (replicate (length texts) query) texts of
        Inl e \<Rightarrow> replicate (length texts) 0
      | Inr scores \<Rightarrow> scores)"

subsection \<open>Combining and ranking\<close>

definition item_text :: "item \<Rightarrow> string" where
  "item_text it = title it @ ''. '' @ py_str (tags it) @ ''. '' @ py_str (description it)"

text \<open>Lines 112-113.\<close>

definition hybrid_scores :: "rounding \<Rightarrow> real \<Rightarrow> real list \<Rightarrow> real list \<Rightarrow> error + real list" where
  "hybrid_scores rnd hybrid_weight semantic_scores keyword_scores =
     np_add rnd (np_scale rnd hybrid_weight semantic_scores)
                (np_scale rnd (fsub rnd 1 hybrid_weight) keyword_scores)"

text \<open>\<^verbatim>\<open>set(tag.strip() for tag in item['tags'].split(','))\<close>, by its members.\<close>

definition item_tags :: "string \<Rightarrow> string list" where
  "item_tags t = map strip (split_on CHR '','' t)"

text \<open>
  \<^verbatim>\<open>1 + 0.2 * len(common_tags)\<close>: the literal \<^verbatim>\<open>0.2\<close> is the float nearest to one
  fifth, the length is converted to a float, and the product and the sum are rounded.
\<close>

definition boost_factor :: "rounding \<Rightarrow> nat \<Rightarrow> real" where
  "boost_factor rnd c = fadd rnd 1 (fmul rnd (rnd (1 / 5)) (rnd (of_nat c)))"

text \<open>
  The loop of lines 120-124 over \<^verbatim>\<open>enumerate(items)\<close>, updating the score array in
  place. \<^verbatim>\<open>None.split\<close> raises \<^verbatim>\<open>AttributeError\<close>, and numpy raises \<^verbatim>\<open>IndexError\<close> for
  an index beyond the array.
\<close>

fun boost_loop ::
    "rounding \<Rightarrow> string list \<Rightarrow> (nat \<times> item) list \<Rightarrow> real list \<Rightarrow> error + real list" where
  "boost_loop rnd preferred_tags [] scores = Inr scores"
| "boost_loop rnd preferred_tags ((i, it) # rest) scores =
     (case tags it of
        None \<Rightarrow> Inl AttributeError
      | Some t \<Rightarrow>
          (let c = len_common preferred_tags (item_tags t)
           in if 0 < c
              then if i < length scores
                   then boost_loop rnd preferred_tags rest
                          (scores[i := fmul rnd (scores ! i) (boost_factor rnd c)])
                   else Inl IndexError
              else boost_loop rnd preferred_tags rest scores))"

text \<open>
  Lines 116-119: the preferred tags to boost with, if any. \<^verbatim>\<open>if user_id:\<close> is false
  for \<^verbatim>\<open>None\<close> and for the id 0. The stored document need not be a dict: any other
  value has no \<^verbatim>\<open>get\<close> (\<^verbatim>\<open>AttributeError\<close>). A missing key and a value that tests
  false (an empty list among them) mean no boost.
\<close>

definition preferred_tags_of :: "database \<Rightarrow> int option \<Rightarrow> error + string list option" where
  "preferred_tags_of db user_id =
     (case user_id of
        None \<Rightarrow> Inr None
      | Some u \<Rightarrow>
          if u = 0 then Inr None
          else (case get_user_preferences db u of
                  Inl e \<Rightarrow> Inl e
                | Inr (JObj user_prefs) \<Rightarrow>
                    (case map_of user_prefs ''preferred_tags'' of
                       None \<Rightarrow> Inr None
                     | Some v \<Rightarrow>
                         if truthy v
                         then (case py_set v of
                                 Inl e \<Rightarrow> Inl e
                               | Inr preferred_tags \<Rightarrow> Inr (Some preferred_tags))
                         else Inr None)
                | Inr other \<Rightarrow> Inl AttributeError))"

text \<open>Lines 116-124.\<close>

definition user_preference_boost ::
    "rounding \<Rightarrow> database \<Rightarrow> int option \<Rightarrow> item list \<Rightarrow> real list \<Rightarrow> error + real list" where
  "user_preference_boost rnd db user_id items scores =
     (case preferred_tags_of db user_id of
        Inl e \<Rightarrow> Inl e
      | Inr None \<Rightarrow> Inr scores
      | Inr (Some preferred_tags) \<Rightarrow>
          boost_loop rnd preferred_tags (enumerate 0 items) scores)"

text \<open>The result dicts of lines 133-143.\<close>

record recommendation =
  rec_type :: string
  rec_id :: int
  rec_title :: string
  rec_score :: real
  rec_url :: "string option"
  rec_tags :: "string option"
  rec_description :: "string option"
  rec_semantic_score :: real
  rec_keyword_score :: real

definition scored_item :: "item list \<Rightarrow> real list \<Rightarrow> real list \<Rightarrow> real list \<Rightarrow> nat \<Rightarrow> recommendation" where
  "scored_item items scores semantic_scores keyword_scores idx =
     (let it = items ! idx
      in \<lparr>rec_type = item_type it, rec_id = item_id it, rec_title = title it,
          rec_score = scores ! idx, rec_url = url it, rec_tags = tags it,
          rec_description = description it,
          rec_semantic_score = semantic_scores ! idx,
          rec_keyword_score = keyword_scores ! idx\<rparr>)"

text \<open>
  The loop of lines 131-152 over the first \<open>limit\<close> sorted indices: each item is added
  to the result and, for a user, logged; the flag that \<^verbatim>\<open>log_interaction\<close> returns is
  dropped. An index beyond the item list or beyond a score array raises \<^verbatim>\<open>IndexError\<close>.
\<close>

fun build_recommendations ::
    "database \<Rightarrow> int option \<Rightarrow> item list \<Rightarrow> real list \<Rightarrow> real list \<Rightarrow> real list \<Rightarrow> nat list
      \<Rightarrow> (error + recommendation list) \<times> database" where
  "build_recommendations db user_id items scores semantic_scores keyword_scores [] =
     (Inr [], db)"
| "build_recommendations db user_id items scores semantic_scores keyword_scores (idx # rest) =
     (if idx < length items \<and> idx < length scores \<and> idx < length semantic_scores
          \<and> idx < length keyword_scores
      then
        let r = scored_item items scores semantic_scores keyword_scores idx;
            db1 = (case user_id of
                     None \<Rightarrow> db
                   | Some u \<Rightarrow>
                       if u = 0 then db
                       else snd (log_interaction db u (item_id (items ! idx))
                                   (item_type (items ! idx)) ''recommendation''))
        in (case build_recommendations db1 user_id items scores semantic_scores
                   keyword_scores rest of
              (Inl e, db2) \<Rightarrow> (Inl e, db2)
            | (Inr rs, db2) \<Rightarrow> (Inr (r # rs), db2))
      else (Inl IndexError, db))"

text \<open>The body of the \<^verbatim>\<open>try\<close> of \<^verbatim>\<open>recommend\<close> (lines 92-155).\<close>

definition recommend_try ::
    "rounding \<Rightarrow> models \<Rightarrow> database \<Rightarrow> string \<Rightarrow> int option \<Rightarrow> int \<Rightarrow> real
      \<Rightarrow> (error + recommendation list) \<times> database" where
  "recommend_try rnd m db query user_id limit hybrid_weight =
     (case get_all_items db of
        Inl e \<Rightarrow> (Inl e, db)
      | Inr items \<Rightarrow>
          if items = [] then (Inr [], db)
          else
            let texts = map item_text items
            in (case semantic_similarity m query texts of
                  Inl e \<Rightarrow> (Inl e, db)
                | Inr semantic_scores \<Rightarrow>
                    let keyword_scores = keyword_relevance m query texts
                    in (case hybrid_scores rnd hybrid_weight semantic_scores keyword_scores of
                          Inl e \<Rightarrow> (Inl e, db)
                        | Inr scores \<Rightarrow>
                            (case user_preference_boost rnd db user_id items scores of
                               Inl e \<Rightarrow> (Inl e, db)
                             | Inr boosted \<Rightarrow>
                                 let sorted_indices = rev (argsort boosted)
                                 in build_recommendations db user_id items boosted
                                      semantic_scores keyword_scores
                                      (slice_to limit sorted_indices)))))"

text \<open>
  \<^verbatim>\<open>recommend\<close> (lines 72-159): \<^verbatim>\<open>except Exception\<close> turns every error of the body into
  the empty list. What was written to the store before the error stays written.
\<close>

definition recommend ::
    "rounding \<Rightarrow> models \<Rightarrow> database \<Rightarrow> string \<Rightarrow> int option \<Rightarrow> int \<Rightarrow> real
      \<Rightarrow> recommendation list \<times> database" where
  "recommend rnd m db query user_id limit hybrid_weight =
     (case recommend_try rnd m db query user_id limit hybrid_weight of
        (Inl e, db') \<Rightarrow> ([], db')
      | (Inr recommendations, db') \<Rightarrow> (recommendations, db'))"

subsection \<open>Learning the preferences\<close>

text \<open>Lines 172-176.\<close>

definition positive_items :: "interaction list \<Rightarrow> (int \<times> string) list" where
  "positive_items history =
     map (\<lambda>i. (int_item_id i, int_item_type i))
       (filter (\<lambda>i. int_interaction_type i = ''like'' \<or> int_interaction_type i = ''bookmark'')
          history)"

text \<open>
  The loop of lines 183-187: an item that is not found, and an item whose tags are NULL
  or empty, is passed over.
\<close>

fun collect_tags ::
    "database \<Rightarrow> (int \<times> string) list \<Rightarrow> string list \<Rightarrow> error + string list" where
  "collect_tags db [] preferred_tags = Inr preferred_tags"
| "collect_tags db ((ident, ty) # rest) preferred_tags =
     (case get_item db ident ty of
        Inl e \<Rightarrow> Inl e
      | Inr None \<Rightarrow> collect_tags db rest preferred_tags
      | Inr (Some it) \<Rightarrow>
          (case tags it of
             None \<Rightarrow> collect_tags db rest preferred_tags
           | Some t \<Rightarrow>
               if t = [] then collect_tags db rest preferred_tags
               else collect_tags db rest (set_update preferred_tags (item_tags t))))"

text \<open>
  \<^verbatim>\<open>train_user_preferences\<close> (lines 161-200). The flag that
  \<^verbatim>\<open>update_user_preferences\<close> returns is dropped.
\<close>

definition train_user_preferences :: "database \<Rightarrow> int \<Rightarrow> bool \<times> database" where
  "train_user_preferences db user_id =
     (case get_user_interactions db user_id of
        Inl e \<Rightarrow> (False, db)
      | Inr history \<Rightarrow>
          if history = [] then (False, db)
          else if positive_items history = [] then (False, db)
          else (case collect_tags db (positive_items history) [] of
                  Inl e \<Rightarrow> (False, db)
                | Inr preferred_tags \<Rightarrow>
                    (True, snd (update_user_preferences db user_id
                                  (JObj [(''preferred_tags'', JArr (map JStr preferred_tags))])))))"

section \<open>Example data\<close>

text \<open>
  The catalog of the spec's scenario: an event tagged \<^verbatim>\<open>ml,ai\<close>, a course tagged
  \<^verbatim>\<open>frontend\<close>, and a user whose preferred tags are \<^verbatim>\<open>ml\<close>.
\<close>

definition example_event :: event where
  "example_event = \<lparr>ev_id = 1, ev_title = ''ML meetup'', ev_date = None, ev_location = None,
     ev_tags = Some ''ml,ai'', ev_description = None, ev_url = None, ev_source = None,
     ev_popularity = 0\<rparr>"

definition example_course :: course where
  "example_course = \<lparr>co_id = 2, co_title = ''Frontend course'', co_provider = None,
     co_tags = Some ''frontend'', co_description = None, co_start_date = None, co_url = None,
     co_duration = None, co_price = None, co_rating = None\<rparr>"

definition example_user :: user where
  "example_user = \<lparr>usr_user_id = 1, usr_username = None, usr_first_name = None,
     usr_last_name = None,
     usr_preferences = Some (Encoded (JObj [(''preferred_tags'', JArr [JStr ''ml''])]))\<rparr>"

definition example_db :: database where
  "example_db = \<lparr>connectable = True, events = [example_event], courses = [example_course],
     users = [example_user], interactions = []\<rparr>"

text \<open>
  Models for which every text is equally similar to the query, with similarity \<open>s\<close>,
  and whose keyword inference fails.
\<close>

definition flat_models :: "real \<Rightarrow> models" where
  "flat_models s = \<lparr>embedding_model = (\<lambda>t. Inr [1]),
     cosine_similarity = (\<lambda>X Y. Inr (map (\<lambda>x. map (\<lambda>y. s) Y) X)),
     lm_model = (\<lambda>qs ts. Inl ModelError)\<rparr>"

definition example_items :: "item list" where
  "example_items = [event_item example_event, course_item example_course]"

text \<open>
  Stores on which a step of \<^verbatim>\<open>recommend\<close> fails: one with an empty catalog, one that
  cannot be reached, and one where the stored preferences of user 1 are a JSON list
  instead of a dict.
\<close>

definition empty_db :: database where
  "empty_db = example_db\<lparr>events := [], courses := []\<rparr>"

definition offline_db :: database where
  "offline_db = example_db\<lparr>connectable := False\<rparr>"

definition malformed_db :: database where
  "malformed_db = example_db\<lparr>users :=
     [example_user\<lparr>usr_preferences := Some (Encoded (JArr [JStr ''ml'']))\<rparr>]\<rparr>"

text \<open>
  Models whose embedding raises, and models whose similarity function returns three
  scores whatever the number of texts.
\<close>

definition failing_models :: models where
  "failing_models = (flat_models (1 / 2))\<lparr>embedding_model := (\<lambda>t. Inl ModelError)\<rparr>"

definition short_models :: models where
  "short_models =
     (flat_models (1 / 2))\<lparr>cosine_similarity := (\<lambda>X Y. Inr [[1 / 2, 1 / 2, 1 / 2]])\<rparr>"

text \<open>The store after user 1 has viewed the event, and after user 1 has liked it.\<close>

definition viewed_db :: database where
  "viewed_db = snd (log_interaction example_db 1 1 ''event'' ''view'')"


section \<open>Notions of the specification\<close>

text \<open>
  The number of tags an item shares with the preferred tags: the size of the
  intersection of its tag set with them.
\<close>

definition overlap :: "string list \<Rightarrow> item \<Rightarrow> nat" where
  "overlap preferred_tags it =
     (case tags it of None \<Rightarrow> 0 | Some t \<Rightarrow> len_common preferred_tags (item_tags t))"




section \<open>The keyword scorer degrades to zeros\<close>

text \<open>
  C9. When the inference of \<^verbatim>\<open>keyword_relevance\<close> raises, whatever the exception, the
  function returns the zero vector with one entry per text, and the combined score of
  every item is then computed from its semantic score and a keyword score of zero.
\<close>

theorem keyword_relevance_failure:
  assumes "lm_model m (replicate (length texts) query) texts = Inl e"
  shows "keyword_relevance m query texts = replicate (length texts) 0
         \<and> length (keyword_relevance m query texts) = length texts"
  using assms by (simp add: keyword_relevance_def)

theorem keyword_relevance_failure_witness:
  "keyword_relevance (flat_models (1 / 2)) ''python'' [''a'', ''b'', ''c''] = [0, 0, 0]
   \<and> length (keyword_relevance (flat_models (1 / 2)) ''python'' [''a'', ''b'', ''c'']) = 3"
  using keyword_relevance_failure [of "flat_models (1 / 2)" "[''a'', ''b'', ''c'']" "''python''" ModelError]
  by (simp add: flat_models_def)

section \<open>Logging an interaction\<close>

lemma log_interaction_recommendation:
  "log_interaction db user_id ident ty ''recommendation'' = (False, db)"
  by (simp add: log_interaction_def)

text \<open>
  On an event, a like or a bookmark appends the interaction and adds one to the
  popularity of the event with that id, and to nothing else.
\<close>

lemma log_interaction_event_like:
  assumes "connectable db" and "kind = ''like'' \<or> kind = ''bookmark''"
  shows "log_interaction db user_id ident ''event'' kind =
           (True, db\<lparr>interactions := interactions db @
                       [\<lparr>int_user_id = user_id, int_item_id = ident,
                         int_item_type = ''event'', int_interaction_type = kind\<rparr>],
                    events := map (\<lambda>e. if ev_id e = ident
                                        then e\<lparr>ev_popularity := ev_popularity e + 1\<rparr> else e)
                                (events db)\<rparr>)"
  using assms by (auto simp add: log_interaction_def Let_def)

text \<open>Any other kind leaves both catalog tables as they are.\<close>

lemma log_interaction_other_kinds:
  assumes "kind \<noteq> ''like''" and "kind \<noteq> ''bookmark''"
  shows "events (snd (log_interaction db user_id ident ty kind)) = events db
         \<and> courses (snd (log_interaction db user_id ident ty kind)) = courses db"
  using assms by (simp add: log_interaction_def Let_def)

text \<open>
  C10. A like or a bookmark of a course increments nothing: the UPDATE names the column
  \<^verbatim>\<open>courses.popularity\<close>, which the table does not have, so the statement fails, the
  error is caught, the INSERT of the interaction is never committed, and
  \<^verbatim>\<open>log_interaction\<close> returns \<^verbatim>\<open>False\<close> with the store as it was.
\<close>

theorem log_interaction_course_like:
  "log_interaction db user_id ident ''course'' ''like'' = (False, db)
   \<and> log_interaction db user_id ident ''course'' ''bookmark'' = (False, db)"
  by (simp add: log_interaction_def)

theorem log_interaction_course_like_example:
  "log_interaction example_db 1 2 ''course'' ''like'' = (False, example_db)
   \<and> map co_id (courses example_db) = [2]"
  using log_interaction_course_like [of example_db 1 2]
  by (simp add: example_db_def example_course_def)

section \<open>What recommend writes\<close>

lemma build_recommendations_store:
  "snd (build_recommendations db user_id items scores semantic_scores keyword_scores idxs) = db"
proof (induction idxs arbitrary: db)
  case Nil
  then show ?case by simp
next
  case (Cons idx rest)
  have step: "(case user_id of None \<Rightarrow> db
       | Some u \<Rightarrow> if u = 0 then db
                   else snd (log_interaction db u (item_id (items ! idx)) (item_type (items ! idx))
                          ''recommendation'')) = db"
    by (simp add: log_interaction_recommendation split: option.splits)
  show ?case
    using Cons.IH [of db]
    by (auto simp add: Let_def step split: prod.splits sum.splits)
qed

text \<open>
  C2. \<^verbatim>\<open>recommend\<close> appends no interaction at all: the kind \<^verbatim>\<open>recommendation\<close> is not
  among the four kinds that the CHECK constraint of \<^verbatim>\<open>interactions\<close> admits, so every
  INSERT of the loop fails inside \<^verbatim>\<open>log_interaction\<close>, and the store after the call is
  the store before it.
\<close>

theorem recommend_logs_nothing:
  "snd (recommend rnd m db query user_id limit hybrid_weight) = db"
proof -
  have "snd (recommend_try rnd m db query user_id limit hybrid_weight) = db"
    by (simp add: recommend_try_def Let_def build_recommendations_store split: sum.splits)
  then show ?thesis
    by (auto simp add: recommend_def split: prod.splits sum.splits)
qed

lemma example_top_1:
  "map rec_id (fst (recommend exact (flat_models (1 / 2)) example_db ''machine learning''
                      (Some 1) 1 (7 / 10))) = [1]"
  by code_simp

theorem recommend_logs_nothing_example:
  "map rec_id (fst (recommend exact (flat_models (1 / 2)) example_db ''machine learning''
                      (Some 1) 1 (7 / 10))) = [1]
   \<and> interactions (snd (recommend exact (flat_models (1 / 2)) example_db ''machine learning''
                      (Some 1) 1 (7 / 10))) = []"
  using recommend_logs_nothing [of exact "flat_models (1 / 2)" example_db "''machine learning''"
          "Some 1" 1 "7 / 10"]
  by (simp add: example_top_1) (simp add: example_db_def)

section \<open>Learning the preferences\<close>

text \<open>
  C4. When the interactions of the user hold no like and no bookmark,
  \<^verbatim>\<open>train_user_preferences\<close> returns \<^verbatim>\<open>False\<close> and the store, the profile of the user with
  it, is unchanged.
\<close>

theorem train_without_positive:
  assumes "\<forall>i \<in> set (interactions db). int_user_id i = user_id \<longrightarrow>
             int_interaction_type i \<noteq> ''like'' \<and> int_interaction_type i \<noteq> ''bookmark''"
  shows "train_user_preferences db user_id = (False, db)"
proof -
  have "positive_items (filter (\<lambda>i. int_user_id i = user_id) (interactions db)) = []"
    using assms by (auto simp add: positive_items_def filter_empty_conv)
  then show ?thesis
    by (simp add: train_user_preferences_def get_user_interactions_def)
qed

lemma viewed_db_interactions:
  "interactions viewed_db = [\<lparr>int_user_id = 1, int_item_id = 1, int_item_type = ''event'',
                               int_interaction_type = ''view''\<rparr>]"
  by (simp add: viewed_db_def log_interaction_def example_db_def Let_def)

theorem train_without_positive_witness:
  "train_user_preferences viewed_db 1 = (False, viewed_db) \<and> interactions viewed_db \<noteq> []"
  using train_without_positive [of viewed_db 1]
  by (simp add: viewed_db_interactions)












section \<open>Ranking\<close>

subsection \<open>The sorted indices\<close>





lemma set_argsort: "set (argsort scores) = {0..<length scores}"
  by (simp add: argsort_def)

lemma set_slice_to: "set (slice_to n xs) \<subseteq> set xs"
  by (auto simp add: slice_to_def dest: in_set_takeD)


subsection \<open>The result list\<close>

lemma build_recommendations_ok:
  assumes "\<forall>idx \<in> set idxs. idx < length items \<and> idx < length scores
             \<and> idx < length semantic_scores \<and> idx < length keyword_scores"
  shows "fst (build_recommendations db user_id items scores semantic_scores keyword_scores idxs)
         = Inr (map (scored_item items scores semantic_scores keyword_scores) idxs)"
  using assms
proof (induction idxs arbitrary: db)
  case Nil
  then show ?case by simp
next
  case (Cons idx rest)
  then show ?case
    by (auto simp add: Let_def split: prod.splits sum.splits option.splits)
       (metis fst_conv sum.inject(2) sum.distinct(1))+
qed


lemma fst_recommend:
  "fst (recommend rnd m db query user_id limit hybrid_weight) =
     (case fst (recommend_try rnd m db query user_id limit hybrid_weight) of
        Inl e \<Rightarrow> [] | Inr recs \<Rightarrow> recs)"
  by (simp add: recommend_def split: prod.splits sum.splits)





section \<open>The tag boost\<close>

lemma boost_loop_nth:
  assumes "boost_loop rnd P (enumerate k items) scores = Inr boosted"
  shows "length boosted = length scores
         \<and> (\<forall>j < length scores. boosted ! j =
              (if k \<le> j \<and> j < k + length items
               then (if 0 < overlap P (items ! (j - k))
                     then fmul rnd (scores ! j) (boost_factor rnd (overlap P (items ! (j - k))))
                     else scores ! j)
               else scores ! j))"
  using assms
proof (induction items arbitrary: k scores)
  case Nil
  then show ?case by simp
next
  case (Cons it items)
  from Cons.prems obtain t where t: "tags it = Some t"
    by (cases "tags it") simp_all
  let ?c = "len_common P (item_tags t)"
  have ov: "overlap P it = ?c" by (simp add: overlap_def t)
  show ?case
  proof (cases "0 < ?c")
    case True
    with Cons.prems t have k: "k < length scores"
      by (simp add: Let_def split: if_splits)
    let ?s1 = "scores[k := fmul rnd (scores ! k) (boost_factor rnd ?c)]"
    from Cons.prems t True k
    have rec: "boost_loop rnd P (enumerate (Suc k) items) ?s1 = Inr boosted"
      by (simp add: Let_def)
    note IH = Cons.IH [OF rec]
    show ?thesis
    proof (intro conjI allI impI)
      show "length boosted = length scores" using IH by simp
    next
      fix j assume j: "j < length scores"
      then have bj: "boosted ! j =
              (if Suc k \<le> j \<and> j < Suc k + length items
               then (if 0 < overlap P (items ! (j - Suc k))
                     then fmul rnd (?s1 ! j) (boost_factor rnd (overlap P (items ! (j - Suc k))))
                     else ?s1 ! j)
               else ?s1 ! j)"
        using IH by simp
      show "boosted ! j =
              (if k \<le> j \<and> j < k + length (it # items)
               then (if 0 < overlap P ((it # items) ! (j - k))
                     then fmul rnd (scores ! j)
                            (boost_factor rnd (overlap P ((it # items) ! (j - k))))
                     else scores ! j)
               else scores ! j)"
      proof (cases "j = k")
        case True
        then show ?thesis using bj k ov \<open>0 < ?c\<close> by simp
      next
        case False
        then have "?s1 ! j = scores ! j" by simp
        moreover have "k \<le> j \<Longrightarrow> (it # items) ! (j - k) = items ! (j - Suc k)"
          using False by (simp add: nth_Cons')
        ultimately show ?thesis using bj False by auto
      qed
    qed
  next
    case False
    from Cons.prems t False
    have rec: "boost_loop rnd P (enumerate (Suc k) items) scores = Inr boosted"
      by (simp add: Let_def)
    note IH = Cons.IH [OF rec]
    show ?thesis
    proof (intro conjI allI impI)
      show "length boosted = length scores" using IH by simp
    next
      fix j assume j: "j < length scores"
      then have bj: "boosted ! j =
              (if Suc k \<le> j \<and> j < Suc k + length items
               then (if 0 < overlap P (items ! (j - Suc k))
                     then fmul rnd (scores ! j) (boost_factor rnd (overlap P (items ! (j - Suc k))))
                     else scores ! j)
               else scores ! j)"
        using IH by simp
      show "boosted ! j =
              (if k \<le> j \<and> j < k + length (it # items)
               then (if 0 < overlap P ((it # items) ! (j - k))
                     then fmul rnd (scores ! j)
                            (boost_factor rnd (overlap P ((it # items) ! (j - k))))
                     else scores ! j)
               else scores ! j)"
      proof (cases "j = k")
        case True
        then show ?thesis using bj ov False by simp
      next
        case False
        have "k \<le> j \<Longrightarrow> (it # items) ! (j - k) = items ! (j - Suc k)"
          using False by (simp add: nth_Cons')
        then show ?thesis using bj False by auto
      qed
    qed
  qed
qed

text \<open>Without rounding error the factor is \<open>1 + 0.2 * c\<close>, and it grows with \<open>c\<close> without bound.\<close>

lemma boost_exact:
  "fmul exact s (boost_factor exact c) = s * (1 + 0.2 * real c)"
  by (simp add: fmul_def fadd_def boost_factor_def exact_def)

text \<open>
  C6. When the boost step of \<^verbatim>\<open>recommend\<close> completes, the score of an item that shares
  \<open>c > 0\<close> tags with the preferred tags of the profile is its score before the step
  times \<open>1 + 0.2 * c\<close>, the product and the factor being computed in the arithmetic of
  the score array; no cap is applied. The score of an item that shares no tag, and every
  score when there are no preferred tags to boost with, is unchanged.
\<close>

theorem tag_boost:
  assumes "user_preference_boost rnd db user_id items scores = Inr boosted"
    and "preferred_tags_of db user_id = Inr profile"
    and "i < length items" and "i < length scores"
  shows "boosted ! i =
           (case profile of
              None \<Rightarrow> scores ! i
            | Some preferred_tags \<Rightarrow>
                if 0 < overlap preferred_tags (items ! i)
                then fmul rnd (scores ! i) (boost_factor rnd (overlap preferred_tags (items ! i)))
                else scores ! i)
         \<and> fmul exact s (boost_factor exact c) = s * (1 + 0.2 * real c)"
proof (cases profile)
  case None
  then show ?thesis using assms by (simp add: user_preference_boost_def boost_exact)
next
  case (Some P)
  with assms have "boost_loop rnd P (enumerate 0 items) scores = Inr boosted"
    by (simp add: user_preference_boost_def)
  from boost_loop_nth [OF this] assms(3,4) Some show ?thesis
    by (simp add: boost_exact)
qed

lemma example_profile: "preferred_tags_of example_db (Some 1) = Inr (Some [''ml''])"
  by code_simp

lemma example_boost:
  "user_preference_boost exact example_db (Some 1) example_items [7 / 20, 7 / 20]
   = Inr [21 / 50, 7 / 20]"
  by code_simp

lemma length_example_items: "length example_items = 2"
  by (simp add: example_items_def)

lemma example_overlap: "overlap [''ml''] (example_items ! 0) = 1"
  by code_simp

theorem tag_boost_witness:
  "user_preference_boost exact example_db (Some 1) example_items [7 / 20, 7 / 20]
     = Inr [21 / 50, 7 / 20]
   \<and> overlap [''ml''] (example_items ! 0) = 1
   \<and> [21 / 50, 7 / 20 :: real] ! 0 = 7 / 20 * (1 + 0.2 * real 1)"
  using tag_boost [OF example_boost example_profile, of 0 "7 / 20" 1]
  by (simp add: example_overlap example_boost length_example_items boost_exact)





section \<open>recommend never raises\<close>

lemma hybrid_scores_length:
  assumes "hybrid_scores rnd w sem kw = Inr scores" and "length sem = length kw"
  shows "length scores = length sem"
  using assms by (auto simp add: hybrid_scores_def np_add_def np_scale_def)

lemma user_preference_boost_length:
  assumes "user_preference_boost rnd db user_id items scores = Inr boosted"
  shows "length boosted = length scores"
proof (cases "preferred_tags_of db user_id")
  case (Inl e)
  then show ?thesis using assms by (simp add: user_preference_boost_def)
next
  case (Inr profile)
  show ?thesis
  proof (cases profile)
    case None
    then show ?thesis using assms Inr by (simp add: user_preference_boost_def)
  next
    case (Some P)
    then have "boost_loop rnd P (enumerate 0 items) scores = Inr boosted"
      using assms Inr by (simp add: user_preference_boost_def)
    from boost_loop_nth [OF this] show ?thesis by simp
  qed
qed

text \<open>
  When every step before the loop succeeds and the scorers return one score per item,
  the loop cannot fail: whatever \<^verbatim>\<open>log_interaction\<close> does, the ranked items are returned.
\<close>

lemma recommend_ranked:
  assumes items: "get_all_items db = Inr items"
    and sem: "semantic_similarity m query (map item_text items) = Inr semantic_scores"
    and scores: "hybrid_scores rnd hybrid_weight semantic_scores
                   (keyword_relevance m query (map item_text items)) = Inr scores"
    and boosted: "user_preference_boost rnd db user_id items scores = Inr boosted"
    and ls: "length semantic_scores = length items"
    and lk: "length (keyword_relevance m query (map item_text items)) = length items"
  shows "fst (recommend rnd m db query user_id limit hybrid_weight) =
           map (scored_item items boosted semantic_scores
                  (keyword_relevance m query (map item_text items)))
               (slice_to limit (rev (argsort boosted)))"
proof (cases "items = []")
  case True
  then have "boosted = []"
    using hybrid_scores_length [OF scores] user_preference_boost_length [OF boosted] ls lk
    by simp
  then show ?thesis using True items
    by (simp add: recommend_def recommend_try_def argsort_def slice_to_def)
next
  case False
  have lb: "length boosted = length items"
    using hybrid_scores_length [OF scores] user_preference_boost_length [OF boosted] ls lk
    by simp
  have "\<forall>idx \<in> set (slice_to limit (rev (argsort boosted))). idx < length boosted"
    using set_slice_to [of limit "rev (argsort boosted)"] by (auto simp add: set_argsort)
  then have "\<forall>idx \<in> set (slice_to limit (rev (argsort boosted))).
               idx < length items \<and> idx < length boosted \<and> idx < length semantic_scores
               \<and> idx < length (keyword_relevance m query (map item_text items))"
    using lb ls lk by simp
  from build_recommendations_ok [OF this]
  show ?thesis using False items sem scores boosted
    by (simp add: fst_recommend recommend_try_def)
qed

text \<open>
  C1, as amended. \<^verbatim>\<open>recommend\<close> always returns a list (the model is a total function
  into lists: no error value leaves it). The list is empty when the store cannot be
  read, when the catalog is empty, and when the semantic scoring, the combination of the
  scores or the preference boost raises. When these steps succeed and the scorers
  return one score per item, the result is the ranked items, cut at the limit; a failed
  keyword inference has been replaced by zeros by then, and the outcome of
  \<^verbatim>\<open>log_interaction\<close> plays no part.
\<close>

theorem recommend_failures:
  "(get_all_items db = Inl e \<longrightarrow>
      fst (recommend rnd m db query user_id limit hybrid_weight) = [])
   \<and> (get_all_items db = Inr [] \<longrightarrow>
      fst (recommend rnd m db query user_id limit hybrid_weight) = [])
   \<and> (get_all_items db = Inr items
      \<and> semantic_similarity m query (map item_text items) = Inl e \<longrightarrow>
      fst (recommend rnd m db query user_id limit hybrid_weight) = [])
   \<and> (get_all_items db = Inr items
      \<and> semantic_similarity m query (map item_text items) = Inr semantic_scores
      \<and> hybrid_scores rnd hybrid_weight semantic_scores
           (keyword_relevance m query (map item_text items)) = Inl e \<longrightarrow>
      fst (recommend rnd m db query user_id limit hybrid_weight) = [])
   \<and> (get_all_items db = Inr items
      \<and> semantic_similarity m query (map item_text items) = Inr semantic_scores
      \<and> hybrid_scores rnd hybrid_weight semantic_scores
           (keyword_relevance m query (map item_text items)) = Inr scores
      \<and> user_preference_boost rnd db user_id items scores = Inl e \<longrightarrow>
      fst (recommend rnd m db query user_id limit hybrid_weight) = [])
   \<and> (get_all_items db = Inr items
      \<and> semantic_similarity m query (map item_text items) = Inr semantic_scores
      \<and> hybrid_scores rnd hybrid_weight semantic_scores
           (keyword_relevance m query (map item_text items)) = Inr scores
      \<and> user_preference_boost rnd db user_id items scores = Inr boosted
      \<and> length semantic_scores = length items
      \<and> length (keyword_relevance m query (map item_text items)) = length items \<longrightarrow>
      fst (recommend rnd m db query user_id limit hybrid_weight) =
        map (scored_item items boosted semantic_scores
               (keyword_relevance m query (map item_text items)))
            (slice_to limit (rev (argsort boosted))))"
proof (intro conjI impI)
  assume "get_all_items db = Inl e"
  then show "fst (recommend rnd m db query user_id limit hybrid_weight) = []"
    by (simp add: fst_recommend recommend_try_def)
next
  assume "get_all_items db = Inr []"
  then show "fst (recommend rnd m db query user_id limit hybrid_weight) = []"
    by (simp add: fst_recommend recommend_try_def)
next
  assume "get_all_items db = Inr items
      \<and> semantic_similarity m query (map item_text items) = Inl e"
  then show "fst (recommend rnd m db query user_id limit hybrid_weight) = []"
    by (simp add: fst_recommend recommend_try_def)
next
  assume "get_all_items db = Inr items
      \<and> semantic_similarity m query (map item_text items) = Inr semantic_scores
      \<and> hybrid_scores rnd hybrid_weight semantic_scores
           (keyword_relevance m query (map item_text items)) = Inl e"
  then show "fst (recommend rnd m db query user_id limit hybrid_weight) = []"
    by (simp add: fst_recommend recommend_try_def)
next
  assume "get_all_items db = Inr items
      \<and> semantic_similarity m query (map item_text items) = Inr semantic_scores
      \<and> hybrid_scores rnd hybrid_weight semantic_scores
           (keyword_relevance m query (map item_text items)) = Inr scores
      \<and> user_preference_boost rnd db user_id items scores = Inl e"
  then show "fst (recommend rnd m db query user_id limit hybrid_weight) = []"
    by (simp add: fst_recommend recommend_try_def)
next
  assume "get_all_items db = Inr items
      \<and> semantic_similarity m query (map item_text items) = Inr semantic_scores
      \<and> hybrid_scores rnd hybrid_weight semantic_scores
           (keyword_relevance m query (map item_text items)) = Inr scores
      \<and> user_preference_boost rnd db user_id items scores = Inr boosted
      \<and> length semantic_scores = length items
      \<and> length (keyword_relevance m query (map item_text items)) = length items"
  then show "fst (recommend rnd m db query user_id limit hybrid_weight) =
        map (scored_item items boosted semantic_scores
               (keyword_relevance m query (map item_text items)))
            (slice_to limit (rev (argsort boosted)))"
    using recommend_ranked by blast
qed

lemma offline_catalog: "get_all_items offline_db = Inl StoreError"
  by (simp add: get_all_items_def offline_db_def example_db_def)

lemma empty_catalog: "get_all_items empty_db = Inr []"
  by (simp add: get_all_items_def empty_db_def example_db_def)

lemma example_catalog: "get_all_items example_db = Inr example_items"
  by (simp add: get_all_items_def example_db_def example_items_def)

lemma malformed_catalog: "get_all_items malformed_db = Inr example_items"
  by (simp add: get_all_items_def malformed_db_def example_db_def example_items_def)

lemma failing_semantic:
  "semantic_similarity failing_models ''python'' (map item_text example_items) = Inl ModelError"
  by code_simp

lemma short_semantic:
  "semantic_similarity short_models ''python'' (map item_text example_items)
   = Inr [1 / 2, 1 / 2, 1 / 2]"
  by code_simp

lemma short_keyword:
  "keyword_relevance short_models ''python'' (map item_text example_items) = [0, 0]"
  by code_simp

lemma short_hybrid:
  "hybrid_scores exact (7 / 10) [1 / 2, 1 / 2, 1 / 2] [0, 0] = Inl ValueError"
  by code_simp

lemma example_semantic:
  "semantic_similarity (flat_models (1 / 2)) ''python'' (map item_text example_items)
   = Inr [1 / 2, 1 / 2]"
  by code_simp

lemma example_keyword:
  "keyword_relevance (flat_models (1 / 2)) ''python'' (map item_text example_items) = [0, 0]"
  by code_simp

lemma example_hybrid:
  "hybrid_scores exact (7 / 10) [1 / 2, 1 / 2] [0, 0] = Inr [7 / 20, 7 / 20]"
  by code_simp

lemma malformed_boost:
  "user_preference_boost exact malformed_db (Some 1) example_items [7 / 20, 7 / 20]
   = Inl AttributeError"
  by code_simp

lemma example_ranked:
  "map rec_id
     (map (scored_item example_items [21 / 50, 7 / 20] [1 / 2, 1 / 2] [0, 0])
        (slice_to 5 (rev (argsort [21 / 50, 7 / 20])))) = [1, 2]"
  by code_simp

theorem recommend_failures_witness:
  "fst (recommend exact (flat_models (1 / 2)) offline_db ''python'' (Some 1) 5 (7 / 10)) = []
   \<and> fst (recommend exact (flat_models (1 / 2)) empty_db ''python'' (Some 1) 5 (7 / 10)) = []
   \<and> fst (recommend exact failing_models example_db ''python'' (Some 1) 5 (7 / 10)) = []
   \<and> fst (recommend exact short_models example_db ''python'' (Some 1) 5 (7 / 10)) = []
   \<and> fst (recommend exact (flat_models (1 / 2)) malformed_db ''python'' (Some 1) 5 (7 / 10)) = []
   \<and> map rec_id (fst (recommend exact (flat_models (1 / 2)) example_db ''python'' (Some 1) 5
                         (7 / 10))) = [1, 2]"
proof -
  have 1: "fst (recommend exact (flat_models (1 / 2)) offline_db ''python'' (Some 1) 5 (7 / 10)) = []"
    using recommend_failures [where db = offline_db and e = StoreError and rnd = exact
        and m = "flat_models (1 / 2)" and query = "''python''" and user_id = "Some 1"
        and limit = 5 and hybrid_weight = "7 / 10"]
    by (simp add: offline_catalog)
  have 2: "fst (recommend exact (flat_models (1 / 2)) empty_db ''python'' (Some 1) 5 (7 / 10)) = []"
    using recommend_failures [where db = empty_db and rnd = exact
        and m = "flat_models (1 / 2)" and query = "''python''" and user_id = "Some 1"
        and limit = 5 and hybrid_weight = "7 / 10"]
    by (simp add: empty_catalog)
  have 3: "fst (recommend exact failing_models example_db ''python'' (Some 1) 5 (7 / 10)) = []"
    using recommend_failures [where db = example_db and e = ModelError and rnd = exact
        and m = failing_models and query = "''python''" and user_id = "Some 1"
        and limit = 5 and hybrid_weight = "7 / 10" and items = example_items]
    by (simp add: example_catalog failing_semantic)
  have 4: "fst (recommend exact short_models example_db ''python'' (Some 1) 5 (7 / 10)) = []"
    using recommend_failures [where db = example_db and e = ValueError and rnd = exact
        and m = short_models and query = "''python''" and user_id = "Some 1"
        and limit = 5 and hybrid_weight = "7 / 10" and items = example_items
        and semantic_scores = "[1 / 2, 1 / 2, 1 / 2]"]
    by (simp add: example_catalog short_semantic short_keyword short_hybrid)
  have 5: "fst (recommend exact (flat_models (1 / 2)) malformed_db ''python'' (Some 1) 5 (7 / 10)) = []"
    using recommend_failures [where db = malformed_db and e = AttributeError and rnd = exact
        and m = "flat_models (1 / 2)" and query = "''python''" and user_id = "Some 1"
        and limit = 5 and hybrid_weight = "7 / 10" and items = example_items
        and semantic_scores = "[1 / 2, 1 / 2]" and scores = "[7 / 20, 7 / 20]"]
    by (simp add: malformed_catalog example_semantic example_keyword example_hybrid
        malformed_boost)
  have 6: "fst (recommend exact (flat_models (1 / 2)) example_db ''python'' (Some 1) 5 (7 / 10)) =
        map (scored_item example_items [21 / 50, 7 / 20] [1 / 2, 1 / 2] [0, 0])
            (slice_to 5 (rev (argsort [21 / 50, 7 / 20])))"
    using recommend_failures [where db = example_db and rnd = exact
        and m = "flat_models (1 / 2)" and query = "''python''" and user_id = "Some 1"
        and limit = 5 and hybrid_weight = "7 / 10" and items = example_items
        and semantic_scores = "[1 / 2, 1 / 2]" and scores = "[7 / 20, 7 / 20]"
        and boosted = "[21 / 50, 7 / 20]"]
    by (simp add: example_catalog example_semantic example_keyword example_hybrid
        example_boost length_example_items)
  from 6 have 7: "map rec_id (fst (recommend exact (flat_models (1 / 2)) example_db ''python''
                                     (Some 1) 5 (7 / 10))) = [1, 2]"
    by (simp only: example_ranked)
  show ?thesis using 1 2 3 4 5 7 by blast
qed

text \<open>
  The claim as stated fails where a step fails without raising into \<^verbatim>\<open>recommend\<close>. On
  the example the keyword inference raises and every \<^verbatim>\<open>log_interaction\<close> fails (its
  INSERT violates the CHECK constraint, and it returns \<^verbatim>\<open>False\<close>), and both items are
  returned.
\<close>

theorem recommend_failures_counterexample:
  "log_interaction example_db 1 1 ''event'' ''recommendation'' = (False, example_db)
   \<and> lm_model (flat_models (1 / 2)) (replicate 2 ''python'') (map item_text example_items)
       = Inl ModelError
   \<and> map rec_id (fst (recommend exact (flat_models (1 / 2)) example_db ''python'' (Some 1) 5
                         (7 / 10))) = [1, 2]"
  by (simp add: log_interaction_recommendation) code_simp

section \<open>The convex combination\<close>

text \<open>
  C8, as amended. In exact arithmetic the hybrid score of an item, before the boost, is
  \<open>w * s + (1 - w) * k\<close> and lies between the smaller and the larger of its two
  sub-scores, for every weight \<open>w\<close> between 0 and 1.
\<close>

theorem hybrid_exact_bounds:
  assumes "0 \<le> hybrid_weight" and "hybrid_weight \<le> 1"
    and "length semantic_scores = length keyword_scores"
    and "i < length semantic_scores"
  shows "\<exists>scores. hybrid_scores exact hybrid_weight semantic_scores keyword_scores = Inr scores
           \<and> scores ! i = hybrid_weight * semantic_scores ! i
                            + (1 - hybrid_weight) * keyword_scores ! i
           \<and> min (semantic_scores ! i) (keyword_scores ! i) \<le> scores ! i
           \<and> scores ! i \<le> max (semantic_scores ! i) (keyword_scores ! i)"
proof -
  let ?s = "semantic_scores ! i" and ?k = "keyword_scores ! i"
  let ?h = "hybrid_weight * ?s + (1 - hybrid_weight) * ?k"
  have eq: "hybrid_scores exact hybrid_weight semantic_scores keyword_scores =
          Inr (map2 (fadd exact) (map (fmul exact hybrid_weight) semantic_scores)
                 (map (fmul exact (fsub exact 1 hybrid_weight)) keyword_scores))"
    using assms(3) by (simp add: hybrid_scores_def np_add_def np_scale_def)
  have nth: "map2 (fadd exact) (map (fmul exact hybrid_weight) semantic_scores)
                 (map (fmul exact (fsub exact 1 hybrid_weight)) keyword_scores) ! i = ?h"
    using assms(3,4) by (simp add: fadd_def fmul_def fsub_def exact_def)
  have lo: "min ?s ?k \<le> ?h"
  proof -
    have "hybrid_weight * min ?s ?k \<le> hybrid_weight * ?s"
      using assms(1) by (simp add: mult_left_mono)
    moreover have "(1 - hybrid_weight) * min ?s ?k \<le> (1 - hybrid_weight) * ?k"
      using assms(2) by (simp add: mult_left_mono)
    moreover have "hybrid_weight * min ?s ?k + (1 - hybrid_weight) * min ?s ?k = min ?s ?k"
      by (simp add: algebra_simps)
    ultimately show ?thesis by linarith
  qed
  have hi: "?h \<le> max ?s ?k"
  proof -
    have "hybrid_weight * ?s \<le> hybrid_weight * max ?s ?k"
      using assms(1) by (simp add: mult_left_mono)
    moreover have "(1 - hybrid_weight) * ?k \<le> (1 - hybrid_weight) * max ?s ?k"
      using assms(2) by (simp add: mult_left_mono)
    moreover have "hybrid_weight * max ?s ?k + (1 - hybrid_weight) * max ?s ?k = max ?s ?k"
      by (simp add: algebra_simps)
    ultimately show ?thesis by linarith
  qed
  show ?thesis using eq nth lo hi by simp
qed

theorem hybrid_exact_bounds_witness:
  "\<exists>scores. hybrid_scores exact (7 / 10) [9 / 10, 1 / 5] [1 / 2, 1] = Inr scores
           \<and> scores ! 1 = 7 / 10 * [9 / 10, 1 / 5] ! 1 + (1 - 7 / 10) * [1 / 2, 1] ! 1
           \<and> min ([9 / 10, 1 / 5] ! 1) ([1 / 2, 1] ! 1) \<le> scores ! 1
           \<and> scores ! 1 \<le> max ([9 / 10, 1 / 5] ! 1) ([1 / 2, 1] ! 1)"
  using hybrid_exact_bounds [of "7 / 10" "[9 / 10, 1 / 5]" "[1 / 2, 1]" 1]
  by simp

subsection \<open>Double precision\<close>

lemma bit_length_bounds:
  "0 < n \<Longrightarrow> 2 ^ (bit_length n - 1) \<le> n \<and> n < 2 ^ bit_length n"
proof (induction n rule: bit_length.induct)
  case (1 n)
  show ?case
  proof (cases "n div 2 = 0")
    case True
    with 1 have "n = 1" by (simp add: div_eq_0_iff) 
    then show ?thesis
      by (simp add: bit_length.simps [of "Suc 0"] bit_length.simps [of 0])
  next
    case False
    then have pos: "0 < n div 2" by simp
    from 1 pos have IH: "2 ^ (bit_length (n div 2) - 1) \<le> n div 2 \<and> n div 2 < 2 ^ bit_length (n div 2)"
      by simp
    have bl: "bit_length n = Suc (bit_length (n div 2))"
      using 1 by (simp add: bit_length.simps [of n])
    have bpos: "0 < bit_length (n div 2)"
      using pos by (simp add: bit_length.simps [of "n div 2"])
    then obtain b where b: "bit_length (n div 2) = Suc b"
      by (cases "bit_length (n div 2)") simp_all
    from IH b have "2 ^ b \<le> n div 2" "n div 2 < 2 ^ Suc b" by simp_all
    then have "2 * 2 ^ b \<le> n" "n < 2 * 2 ^ Suc b" by arith+
    then show ?thesis using bl b by simp
  qed
qed

lemma ilog2_bounds:
  assumes "0 < x"
  shows "2 powi (ilog2 x) \<le> x \<and> x < 2 powi (ilog2 x + 1)"
proof (cases "1 \<le> x")
  case True
  define n where "n = nat \<lfloor>x\<rfloor>"
  have n: "0 < n" "real n \<le> x" "x < real n + 1"
    using True by (simp_all add: n_def)
  note bl = bit_length_bounds [OF n(1)]
  have bpos: "0 < bit_length n" using n(1) by (simp add: bit_length.simps [of n])
  then obtain b where b: "bit_length n = Suc b" by (cases "bit_length n") simp_all
  have e: "ilog2 x = int b" using True b by (simp add: ilog2_def n_def)
  from bl b have "2 ^ b \<le> n" "n < 2 ^ Suc b" by simp_all
  then have "real (2 ^ b) \<le> real n" "real (Suc n) \<le> real (2 ^ Suc b)"
    by (simp_all only: of_nat_le_iff Suc_le_eq)
  then have "(2::real) ^ b \<le> real n" "real n + 1 \<le> 2 ^ Suc b"
    by simp_all
  with n have "(2::real) ^ b \<le> x" "x < 2 ^ Suc b" by linarith+
  then show ?thesis using e by (simp add: power_int_add)
next
  case False
  define y where "y = 1 / x"
  have y: "1 < y" using assms False by (simp add: y_def)
  define n where "n = nat (\<lceil>y\<rceil> - 1)"
  have c: "2 \<le> \<lceil>y\<rceil>" using y by (simp add: le_ceiling_iff) 
  have n: "0 < n" "real n < y" "y \<le> real n + 1"
    using c by (simp_all add: n_def) linarith+
  note bl = bit_length_bounds [OF n(1)]
  have bpos: "0 < bit_length n" using n(1) by (simp add: bit_length.simps [of n])
  then obtain b where b: "bit_length n = Suc b" by (cases "bit_length n") simp_all
  have e: "ilog2 x = - int (Suc b)" using False b by (simp add: ilog2_def n_def y_def)
  from bl b have "2 ^ b \<le> n" "n < 2 ^ Suc b" by simp_all
  then have "real (2 ^ b) \<le> real n" "real (Suc n) \<le> real (2 ^ Suc b)"
    by (simp_all only: of_nat_le_iff Suc_le_eq)
  then have "(2::real) ^ b \<le> real n" "real n + 1 \<le> 2 ^ Suc b"
    by simp_all
  with n have "(2::real) ^ b < y" "y \<le> 2 ^ Suc b" by linarith+
  then have x: "1 / 2 ^ Suc b \<le> x" "x < 1 / 2 ^ b"
    using assms by (simp_all add: y_def field_simps)
  have p1: "2 powi (- int (Suc b)) = 1 / (2::real) ^ Suc b"
    by (simp only: power_int_minus power_int_of_nat inverse_eq_divide)
  have "- int (Suc b) + 1 = - int b" by simp
  then have p2: "2 powi (- int (Suc b) + 1) = 1 / (2::real) ^ b"
    by (simp only: power_int_minus power_int_of_nat inverse_eq_divide)
  show ?thesis using x p1 p2 e by simp
qed

lemma round_half_even_error: "\<bar>of_int (round_half_even y) - y\<bar> \<le> 1 / 2"
  by (simp add: round_half_even_def Let_def)

lemma round_half_even_mono: "y \<le> of_int k \<Longrightarrow> round_half_even y \<le> k"
  by (simp add: round_half_even_def Let_def) linarith

lemma round_half_even_nonneg: "0 \<le> y \<Longrightarrow> 0 \<le> round_half_even y"
  by (simp add: round_half_even_def Let_def)

text \<open>
  \<open>binary64\<close> is a rounding to nearest: its value has a significand of at most 53 bits
  at the exponent of the binade of \<open>x\<close>, and it is at most half a unit in the last
  place away from \<open>x\<close>.
\<close>

lemma binary64_nearest:
  assumes "x \<noteq> 0"
  shows "(\<exists>m. \<bar>m\<bar> \<le> 2 ^ 53 \<and> binary64 x = of_int m * 2 powi (ilog2 \<bar>x\<bar> - 52))
         \<and> \<bar>binary64 x - x\<bar> \<le> 2 powi (ilog2 \<bar>x\<bar> - 53)"
proof -
  define e where "e = ilog2 \<bar>x\<bar>"
  define u :: real where "u = 2 powi (e - 52)"
  define a where "a = \<bar>x\<bar>"
  define m0 where "m0 = round_half_even (a * 2 powi (52 - e))"
  have upos: "0 < u" by (simp add: u_def)
  have inv: "2 powi (52 - e) = 1 / u"
    by (simp add: u_def power_int_diff)
  have b: "binary64 x = sgn x * of_int m0 * u"
    using assms by (simp add: binary64_def Let_def e_def u_def m0_def a_def)
  have bounds: "a < 2 powi (e + 1)"
    using ilog2_bounds [of "\<bar>x\<bar>"] assms by (simp add: e_def a_def)
  have "2 powi (e + 1) = 2 ^ 53 * u"
    by (simp add: u_def power_int_diff power_int_add)
  with bounds have "a < 2 ^ 53 * u" by simp
  then have "a / u < 2 ^ 53"
    using upos by (simp add: pos_divide_less_eq)
  then have "a * (1 / u) \<le> of_int (2 ^ 53)" by simp
  then have "m0 \<le> 2 ^ 53"
    unfolding m0_def inv by (rule round_half_even_mono)
  moreover have "0 \<le> a * (1 / u)" using upos by (simp add: a_def)
  then have "0 \<le> m0"
    unfolding m0_def inv by (rule round_half_even_nonneg)
  ultimately have m0: "\<bar>m0\<bar> \<le> 2 ^ 53" by simp
  define m where "m = (if 0 < x then m0 else - m0)"
  have "\<bar>m\<bar> \<le> 2 ^ 53"
    using m0 by (simp add: m_def)
  moreover have "binary64 x = of_int m * u"
    using b assms by (simp add: sgn_if m_def)
  ultimately have ex: "\<exists>m. \<bar>m\<bar> \<le> 2 ^ 53 \<and> binary64 x = of_int m * 2 powi (ilog2 \<bar>x\<bar> - 52)"
    unfolding u_def e_def by blast
  have err: "\<bar>of_int m0 - a * (1 / u)\<bar> \<le> 1 / 2"
    unfolding m0_def inv by (rule round_half_even_error)
  have "of_int m0 * u - a = u * (of_int m0 - a * (1 / u))"
    using upos by (simp add: right_diff_distrib)
  then have "\<bar>of_int m0 * u - a\<bar> = u * \<bar>of_int m0 - a * (1 / u)\<bar>"
    using upos by (simp add: abs_mult)
  also have "\<dots> \<le> u * (1 / 2)"
    using err upos by (rule_tac mult_left_mono) simp_all
  finally have "\<bar>of_int m0 * u - a\<bar> \<le> u / 2" by simp
  moreover have "\<bar>binary64 x - x\<bar> = \<bar>of_int m0 * u - a\<bar>"
  proof (cases "0 < x")
    case True
    then show ?thesis using b by (simp add: a_def)
  next
    case False
    with assms have "x < 0" by simp
    then have "binary64 x - x = - (of_int m0 * u - a)" using b by (simp add: a_def)
    then show ?thesis by (simp only: abs_minus)
  qed
  moreover have "u / 2 = 2 powi (e - 53)"
    by (simp add: u_def power_int_diff)
  ultimately have "\<bar>binary64 x - x\<bar> \<le> 2 powi (ilog2 \<bar>x\<bar> - 53)"
    by (simp add: e_def)
  with ex show ?thesis by blast
qed

lemma bit_length_1: "bit_length (Suc 0) = Suc 0"
  by (simp add: bit_length.simps [of "Suc 0"] bit_length.simps [of 0])

lemma bit_length_2: "bit_length 2 = 2"
  by (simp add: bit_length.simps [of 2] bit_length_1)

lemma bit_length_3: "bit_length 3 = 2"
  by (simp add: bit_length.simps [of 3] bit_length_1)

lemma ilog2_half:
  assumes "1 / 2 \<le> x" and "x < 1"
  shows "ilog2 x = - 1"
proof -
  have "1 < 1 / x" "1 / x \<le> 2" using assms by (simp_all add: field_simps)
  then have "\<lceil>1 / x\<rceil> = 2" by (simp add: ceiling_unique)
  then show ?thesis using assms by (simp add: ilog2_def bit_length_1)
qed

lemma ilog2_quarter:
  assumes "1 / 4 \<le> x" and "x < 1 / 2"
  shows "ilog2 x = - 2"
proof -
  have "2 < 1 / x" "1 / x \<le> 4" using assms by (simp_all add: field_simps)
  then have "2 < \<lceil>1 / x\<rceil>" "\<lceil>1 / x\<rceil> \<le> 4"
    by (simp_all add: less_ceiling_iff ceiling_le_iff)
  then have "\<lceil>1 / x\<rceil> = 3 \<or> \<lceil>1 / x\<rceil> = 4"
    by arith
  then show ?thesis using assms by (auto simp add: ilog2_def bit_length_2 bit_length_3)
qed

text \<open>Between 1/2 and 1 the doubles are the multiples of \<open>2^-53\<close>, below down to 1/4 of \<open>2^-54\<close>.\<close>

lemma binary64_half:
  "1 / 2 \<le> x \<Longrightarrow> x < 1 \<Longrightarrow> binary64 x = of_int (round_half_even (x * 2 ^ 53)) / 2 ^ 53"
  by (simp add: binary64_def ilog2_half Let_def power_int_minus field_simps)

lemma binary64_quarter:
  "1 / 4 \<le> x \<Longrightarrow> x < 1 / 2 \<Longrightarrow> binary64 x = of_int (round_half_even (x * 2 ^ 54)) / 2 ^ 54"
  by (simp add: binary64_def ilog2_quarter Let_def power_int_minus field_simps)

lemma binary64_0_7: "binary64 (7 / 10) = 3152519739159347 / 4503599627370496"
  by (simp add: binary64_half round_half_even_def Let_def)

lemma binary64_0_9: "binary64 (9 / 10) = 8106479329266893 / 9007199254740992"
  by (simp add: binary64_half round_half_even_def Let_def)

text \<open>
  The claim as stated fails in double precision by one unit in the last place: with the
  default weight \<^verbatim>\<open>0.7\<close> and both sub-scores \<^verbatim>\<open>0.9\<close> the hybrid score is
  \<^verbatim>\<open>0.9000000000000001\<close>, the double after \<^verbatim>\<open>0.9\<close>.
\<close>

theorem hybrid_bounds_counterexample:
  "0 \<le> binary64 (7 / 10) \<and> binary64 (7 / 10) \<le> 1
   \<and> 0 \<le> binary64 (9 / 10) \<and> binary64 (9 / 10) \<le> 1
   \<and> hybrid_scores binary64 (binary64 (7 / 10)) [binary64 (9 / 10)] [binary64 (9 / 10)]
       = Inr [8106479329266894 / 9007199254740992]
   \<and> max (binary64 (9 / 10)) (binary64 (9 / 10)) < 8106479329266894 / 9007199254740992"
  by (simp add: hybrid_scores_def np_add_def np_scale_def fmul_def fadd_def fsub_def
      binary64_0_7 binary64_0_9 binary64_half binary64_quarter round_half_even_def Let_def)

end
